theory Spec2Isabelle
  imports Complex_Main "HOL-Library.Char_ord" "HOL-Library.List_Lexorder"
begin

section \<open>The transform step of the review warehouse pipeline\<close>

text \<open>
  The notebook's \<^verbatim>\<open>transform_data(df1, df2)\<close> turns the product table and the review
  table into one fact table and four dimension tables. A data frame is modelled as the
  list of its rows, a row as a record of its columns. A cell that pandas holds as NaN,
  None or NaT is \<open>None\<close>; columns the data model declares non-null carry the bare type.
  A float is carried, never computed with, and is a \<open>real\<close>.

  A Python \<^verbatim>\<open>str\<close> is a sequence of code points. A \<open>char\<close> stands for the code point
  of the same number, so a \<open>string\<close> here is a Python string over U+0000 .. U+00FF, and
  its order (\<open>Char_ord\<close>, \<open>List_Lexorder\<close>) is Python's order on those strings.

  Every exception the transform can raise is a value of \<open>error\<close>, and a function that
  can raise returns \<open>error + 'a\<close>.
\<close>

datatype error = KeyError | ParserError | ValueError

subsection \<open>The two inputs\<close>

text \<open>The columns \<^verbatim>\<open>extract_data\<close> keeps of \<^verbatim>\<open>product_info.csv\<close> (df1).\<close>

record product_info =
  df1_product_id :: string
  df1_brand_id :: int
  df1_loves_count :: "int option"
  df1_rating :: "real option"
  df1_reviews :: "real option"
  df1_primary_category :: "string option"
  df1_child_count :: "int option"

text \<open>
  The columns kept of \<^verbatim>\<open>product_reviews.csv\<close> (df2). The column \<^verbatim>\<open>author_id\<close> has
  mixed types in pandas; the transform reads a cell only through \<^verbatim>\<open>str(val)\<close> and,
  for an accepted cell, \<^verbatim>\<open>int(val)\<close>, which agree on a number and on its text, so the
  cell is held as the text \<^verbatim>\<open>str(val)\<close>.
\<close>

record product_review =
  df2_author_id :: string
  df2_rating :: "int option"
  df2_submission_time :: string
  df2_review_text :: "string option"
  df2_review_title :: "string option"
  df2_skin_tone :: "string option"
  df2_eye_color :: "string option"
  df2_skin_type :: "string option"
  df2_hair_color :: "string option"
  df2_product_id :: string
  df2_product_name :: string
  df2_brand_name :: string
  df2_price_usd :: real

subsection \<open>The merged frame\<close>

text \<open>A row of \<^verbatim>\<open>df_merged\<close> after the rename, with the raw cell types.\<close>

record merged =
  m_product_id :: string
  m_brand_id :: int
  m_favorites_count :: "int option"
  m_avg_product_rating :: "real option"
  m_product_reviews_count :: "real option"
  m_product_category :: "string option"
  m_variations_count :: "int option"
  m_reviewer_id :: string
  m_review_rating :: "int option"
  m_full_date :: string
  m_review_text :: "string option"
  m_review_title :: "string option"
  m_reviewer_skin_tone :: "string option"
  m_reviewer_eye_color :: "string option"
  m_reviewer_skin_type :: "string option"
  m_reviewer_hair_color :: "string option"
  m_product_name :: string
  m_brand_name :: string
  m_product_price :: real

text \<open>
  A parsed timestamp: the calendar date with the time of day in nanoseconds. A cell of a
  datetime column is \<open>timestamp option\<close>, \<open>None\<close> being NaT.
\<close>

datatype timestamp =
  Timestamp (ts_year: int) (ts_month: int) (ts_day: int) (ts_nanos: nat)

text \<open>
  A row of \<^verbatim>\<open>df_merged\<close> once \<^verbatim>\<open>full_date\<close> is a datetime, the date parts are added
  and \<^verbatim>\<open>reviewer_id\<close> is an integer.
\<close>

record cleaned =
  c_product_id :: string
  c_brand_id :: int
  c_favorites_count :: "int option"
  c_avg_product_rating :: "real option"
  c_product_reviews_count :: "real option"
  c_product_category :: "string option"
  c_variations_count :: "int option"
  c_reviewer_id :: int
  c_review_rating :: "int option"
  c_full_date :: "timestamp option"
  c_review_text :: "string option"
  c_review_title :: "string option"
  c_reviewer_skin_tone :: "string option"
  c_reviewer_eye_color :: "string option"
  c_reviewer_skin_type :: "string option"
  c_reviewer_hair_color :: "string option"
  c_product_name :: string
  c_brand_name :: string
  c_product_price :: real
  c_year :: "int option"
  c_month :: "int option"
  c_day :: "int option"

subsection \<open>The five outputs\<close>

record review_row =
  f_review_id :: int
  f_product_id :: string
  f_brand_id :: int
  f_reviewer_id :: int
  f_date_id :: "timestamp option"
  f_review_title :: "string option"
  f_review_text :: "string option"
  f_review_rating :: "int option"

record product_row =
  p_product_id :: string
  p_product_name :: string
  p_avg_product_rating :: "real option"
  p_product_price :: real
  p_product_reviews_count :: "real option"
  p_favorites_count :: "int option"
  p_variations_count :: "int option"
  p_product_category :: "string option"

record brand_row =
  b_brand_id :: int
  b_brand_name :: string

record reviewer_row =
  r_reviewer_id :: int
  r_reviewer_skin_tone :: "string option"
  r_reviewer_skin_type :: "string option"
  r_reviewer_eye_color :: "string option"
  r_reviewer_hair_color :: "string option"

record date_row =
  d_date_id :: "timestamp option"
  d_year :: "int option"
  d_month :: "int option"
  d_day :: "int option"

text \<open>The tuple \<^verbatim>\<open>transform_data\<close> returns, by the names of its components.\<close>

record outputs =
  reviews_df :: "review_row list"
  product_df :: "product_row list"
  brand_df :: "brand_row list"
  reviewer_df :: "reviewer_row list"
  date_df :: "date_row list"

subsection \<open>Library operations\<close>

text \<open>
  \<^verbatim>\<open>drop_duplicates(key)\<close> with its default \<^verbatim>\<open>keep="first"\<close>: a row stays unless an
  earlier row has the same key.
\<close>

fun drop_duplicates :: "('a \<Rightarrow> 'k) \<Rightarrow> 'a list \<Rightarrow> 'a list" where
  "drop_duplicates key [] = []"
| "drop_duplicates key (x # xs) =
     x # drop_duplicates key (filter (\<lambda>y. key y \<noteq> key x) xs)"

text \<open>
  \<^verbatim>\<open>pd.merge(df1, df2, how="inner", on="product_id")\<close> followed by the rename: every
  pair of a product row and a review row with the same \<^verbatim>\<open>product_id\<close>. The pandas
  releases that run on the notebook's Python 3.8 (up to 2.0.3) build an inner merge key
  by key: the keys come in the order in which they first occur in the left frame; under
  one key come the left rows that have it, in their order, and under one left row the
  right rows that have it, in their order. (From pandas 2.2 on the rows keep the order
  of the left frame instead; the two orders agree when equal keys are adjacent in the
  left frame, in particular when \<^verbatim>\<open>product_id\<close> is unique there.) Both frames have a
  \<^verbatim>\<open>rating\<close> column, which the merge suffixes (\<^verbatim>\<open>rating_x\<close> of df1, \<^verbatim>\<open>rating_y\<close>
  of df2) and the rename maps to \<^verbatim>\<open>avg_product_rating\<close> and \<^verbatim>\<open>review_rating\<close>.
\<close>

definition merge_row :: "product_info \<Rightarrow> product_review \<Rightarrow> merged" where
  "merge_row p r =
     \<lparr> m_product_id = df1_product_id p,
       m_brand_id = df1_brand_id p,
       m_favorites_count = df1_loves_count p,
       m_avg_product_rating = df1_rating p,
       m_product_reviews_count = df1_reviews p,
       m_product_category = df1_primary_category p,
       m_variations_count = df1_child_count p,
       m_reviewer_id = df2_author_id r,
       m_review_rating = df2_rating r,
       m_full_date = df2_submission_time r,
       m_review_text = df2_review_text r,
       m_review_title = df2_review_title r,
       m_reviewer_skin_tone = df2_skin_tone r,
       m_reviewer_eye_color = df2_eye_color r,
       m_reviewer_skin_type = df2_skin_type r,
       m_reviewer_hair_color = df2_hair_color r,
       m_product_name = df2_product_name r,
       m_brand_name = df2_brand_name r,
       m_product_price = df2_price_usd r \<rparr>"

definition merge :: "product_info list \<Rightarrow> product_review list \<Rightarrow> merged list" where
  "merge df1 df2 =
     concat (map (\<lambda>k.
        concat (map (\<lambda>p. map (merge_row p) (filter (\<lambda>r. df2_product_id r = k) df2))
                    (filter (\<lambda>p. df1_product_id p = k) df1)))
        (drop_duplicates (\<lambda>k. k) (map df1_product_id df1)))"

text \<open>\<^verbatim>\<open>dropna(subset=["review_text"])\<close> keeps the rows whose review text is not null.\<close>

definition dropna_review_text :: "merged list \<Rightarrow> merged list" where
  "dropna_review_text df = filter (\<lambda>r. m_review_text r \<noteq> None) df"

text \<open>\<^verbatim>\<open>Series.fillna(v)\<close> on one cell.\<close>

definition fillna :: "'a \<Rightarrow> 'a option \<Rightarrow> 'a option" where
  "fillna v x = (case x of None \<Rightarrow> Some v | Some y \<Rightarrow> Some y)"

text \<open>
  \<^verbatim>\<open>Series.mode()\<close>: the non-null values that occur most often, each once, in ascending
  order; empty when the column has no non-null value. \<^verbatim>\<open>mode()[0]\<close> is its first entry
  and raises \<^verbatim>\<open>KeyError\<close> on the empty result.
\<close>

definition mode :: "string option list \<Rightarrow> string list" where
  "mode col =
     (let vs = map the (filter (\<lambda>x. x \<noteq> None) col)
      in sort (remdups
           (filter (\<lambda>v. list_all (\<lambda>w. count_list vs w \<le> count_list vs v) vs) vs)))"

definition mode0 :: "string option list \<Rightarrow> error + string" where
  "mode0 col = (case mode col of [] \<Rightarrow> Inl KeyError | m # _ \<Rightarrow> Inr m)"

text \<open>A column operation that raises at its first failing cell.\<close>

fun sequence :: "('e + 'a) list \<Rightarrow> 'e + 'a list" where
  "sequence [] = Inr []"
| "sequence (x # xs) =
     (case x of
        Inl e \<Rightarrow> Inl e
      | Inr v \<Rightarrow> (case sequence xs of Inl e \<Rightarrow> Inl e | Inr vs \<Rightarrow> Inr (v # vs)))"

text \<open>
  \<^verbatim>\<open>pd.to_datetime\<close> on a column of strings, with its default \<^verbatim>\<open>errors="raise"\<close>.
  The date parser itself is a parameter \<open>parse\<close>, \<open>None\<close> where it rejects the text.
  Before it parses, pandas maps the empty string and the tokens of \<open>nat_strings\<close> to NaT
  without raising.
\<close>

definition nat_strings :: "string list" where
  "nat_strings = [''NaT'', ''nat'', ''NAT'', ''nan'', ''NaN'', ''NAN'']"

definition to_datetime1 :: "(string \<Rightarrow> timestamp option) \<Rightarrow> string \<Rightarrow> error + timestamp option" where
  "to_datetime1 parse s =
     (if s = [] \<or> s \<in> set nat_strings then Inr None
      else case parse s of None \<Rightarrow> Inl ParserError | Some t \<Rightarrow> Inr (Some t))"

definition to_datetime :: "(string \<Rightarrow> timestamp option) \<Rightarrow> string list \<Rightarrow> error + timestamp option list" where
  "to_datetime parse col = sequence (map (to_datetime1 parse) col)"

text \<open>
  \<^verbatim>\<open>str.isdigit()\<close>: the string is not empty and every character is a digit. Among the
  code points up to U+00FF the digits are \<^verbatim>\<open>0\<close> .. \<^verbatim>\<open>9\<close> and the superscripts
  U+00B2, U+00B3 and U+00B9. The model ends at U+00FF: beyond it Python has further digits
  (the decimal digits of other scripts, which \<^verbatim>\<open>int\<close> reads as well, and more that it
  does not), and what is proved of \<open>checkNumeric\<close> and \<open>py_int\<close> speaks of no such
  identifier.
\<close>

definition is_ascii_digit :: "char \<Rightarrow> bool" where
  "is_ascii_digit c = (CHR ''0'' \<le> c \<and> c \<le> CHR ''9'')"

definition is_digit_char :: "char \<Rightarrow> bool" where
  "is_digit_char c = (is_ascii_digit c \<or> c = CHR 0xB2 \<or> c = CHR 0xB3 \<or> c = CHR 0xB9)"

definition isdigit :: "string \<Rightarrow> bool" where
  "isdigit s = (s \<noteq> [] \<and> list_all is_digit_char s)"

definition checkNumeric :: "string \<Rightarrow> bool" where
  "checkNumeric val = (if isdigit val then True else False)"

text \<open>
  \<^verbatim>\<open>int(x)\<close> on a string for which \<^verbatim>\<open>x.isdigit()\<close> holds; the transform passes it no
  other, since the filter by \<^verbatim>\<open>checkNumeric\<close> comes first. On such a string \<^verbatim>\<open>int\<close>
  returns the decimal value when every character is one of \<^verbatim>\<open>0\<close> .. \<^verbatim>\<open>9\<close>, of whatever
  length (Python 3.8.5, the version the notebook names), and raises \<^verbatim>\<open>ValueError\<close>
  when a character is a superscript digit. The signs, blanks and underscores that
  \<^verbatim>\<open>int\<close> reads in other strings are left out: \<open>py_int\<close> is not \<^verbatim>\<open>int\<close> there.
\<close>

definition digit_value :: "char \<Rightarrow> nat" where
  "digit_value c = of_char c - of_char CHR ''0''"

definition decimal_value :: "string \<Rightarrow> nat" where
  "decimal_value s = foldl (\<lambda>n c. 10 * n + digit_value c) 0 s"

definition py_int :: "string \<Rightarrow> error + int" where
  "py_int x =
     (if x \<noteq> [] \<and> list_all is_ascii_digit x then Inr (int (decimal_value x))
      else Inl ValueError)"

subsection \<open>The transform\<close>

text \<open>
  The null policies on the merged frame, in the order of the source. After the rows without
  review text are dropped, \<^verbatim>\<open>review_title\<close> gets its placeholder; then, for
  \<^verbatim>\<open>reviewer_skin_tone\<close>, \<^verbatim>\<open>reviewer_eye_color\<close>, \<^verbatim>\<open>reviewer_skin_type\<close> and
  \<^verbatim>\<open>reviewer_hair_color\<close> in this order, the source runs
  \<^verbatim>\<open>df_merged[col] = df_merged[col].fillna(df_merged[col].mode()[0])\<close>:
  the mode is taken of the column as it stands when the line runs, and a line that raises
  ends the transform.
\<close>

definition fill_review_title :: "merged list \<Rightarrow> merged list" where
  "fill_review_title df =
     map (\<lambda>r. r\<lparr>m_review_title := fillna ''Review Provided'' (m_review_title r)\<rparr>) df"

definition fill_skin_tone :: "merged list \<Rightarrow> error + merged list" where
  "fill_skin_tone df =
     (case mode0 (map m_reviewer_skin_tone df) of
        Inl e \<Rightarrow> Inl e
      | Inr v \<Rightarrow> Inr (map (\<lambda>r. r\<lparr>m_reviewer_skin_tone := fillna v (m_reviewer_skin_tone r)\<rparr>) df))"

definition fill_eye_color :: "merged list \<Rightarrow> error + merged list" where
  "fill_eye_color df =
     (case mode0 (map m_reviewer_eye_color df) of
        Inl e \<Rightarrow> Inl e
      | Inr v \<Rightarrow> Inr (map (\<lambda>r. r\<lparr>m_reviewer_eye_color := fillna v (m_reviewer_eye_color r)\<rparr>) df))"

definition fill_skin_type :: "merged list \<Rightarrow> error + merged list" where
  "fill_skin_type df =
     (case mode0 (map m_reviewer_skin_type df) of
        Inl e \<Rightarrow> Inl e
      | Inr v \<Rightarrow> Inr (map (\<lambda>r. r\<lparr>m_reviewer_skin_type := fillna v (m_reviewer_skin_type r)\<rparr>) df))"

definition fill_hair_color :: "merged list \<Rightarrow> error + merged list" where
  "fill_hair_color df =
     (case mode0 (map m_reviewer_hair_color df) of
        Inl e \<Rightarrow> Inl e
      | Inr v \<Rightarrow> Inr (map (\<lambda>r. r\<lparr>m_reviewer_hair_color := fillna v (m_reviewer_hair_color r)\<rparr>) df))"

definition fill_categoricals :: "merged list \<Rightarrow> error + merged list" where
  "fill_categoricals df =
     (case fill_skin_tone df of Inl e \<Rightarrow> Inl e | Inr df1 \<Rightarrow>
      case fill_eye_color df1 of Inl e \<Rightarrow> Inl e | Inr df2 \<Rightarrow>
      case fill_skin_type df2 of Inl e \<Rightarrow> Inl e | Inr df3 \<Rightarrow>
      fill_hair_color df3)"

text \<open>
  The typed row: the merged row \<open>r\<close> with its parsed date \<open>d\<close>, the date parts read off
  it (null on NaT), and its integer reviewer id \<open>i\<close>.
\<close>

definition typed_row :: "merged \<Rightarrow> timestamp option \<Rightarrow> int \<Rightarrow> cleaned" where
  "typed_row r d i =
     \<lparr> c_product_id = m_product_id r,
       c_brand_id = m_brand_id r,
       c_favorites_count = m_favorites_count r,
       c_avg_product_rating = m_avg_product_rating r,
       c_product_reviews_count = m_product_reviews_count r,
       c_product_category = m_product_category r,
       c_variations_count = m_variations_count r,
       c_reviewer_id = i,
       c_review_rating = m_review_rating r,
       c_full_date = d,
       c_review_text = m_review_text r,
       c_review_title = m_review_title r,
       c_reviewer_skin_tone = m_reviewer_skin_tone r,
       c_reviewer_eye_color = m_reviewer_eye_color r,
       c_reviewer_skin_type = m_reviewer_skin_type r,
       c_reviewer_hair_color = m_reviewer_hair_color r,
       c_product_name = m_product_name r,
       c_brand_name = m_brand_name r,
       c_product_price = m_product_price r,
       c_year = map_option ts_year d,
       c_month = map_option ts_month d,
       c_day = map_option ts_day d \<rparr>"

text \<open>
  The date step and the reviewer step. First \<^verbatim>\<open>pd.to_datetime\<close> parses the whole
  \<^verbatim>\<open>full_date\<close> column and the date parts are read off it; then
  \<^verbatim>\<open>df_merged[df_merged["is_numeric"] == True]\<close> keeps the rows whose id
  \<^verbatim>\<open>checkNumeric\<close> accepts; then \<^verbatim>\<open>apply(lambda x: int(x))\<close> converts the ids that
  are left. The columns are lists here, zipped with the rows they belong to.
\<close>

definition type_columns ::
  "(string \<Rightarrow> timestamp option) \<Rightarrow> merged list \<Rightarrow> error + cleaned list" where
  "type_columns parse df =
     (case to_datetime parse (map m_full_date df) of
        Inl e \<Rightarrow> Inl e
      | Inr dates \<Rightarrow>
          (let kept = filter (\<lambda>(r, d). checkNumeric (m_reviewer_id r) = True) (zip df dates)
           in case sequence (map (\<lambda>(r, d). py_int (m_reviewer_id r)) kept) of
                Inl e \<Rightarrow> Inl e
              | Inr ids \<Rightarrow> Inr (map (\<lambda>((r, d), i). typed_row r d i) (zip kept ids))))"

text \<open>
  The value of \<^verbatim>\<open>df_merged\<close> when the tables are cut from it: merge and rename, drop
  the rows without review text, fill the nulls, type the date and the reviewer id.
\<close>

definition clean ::
  "(string \<Rightarrow> timestamp option) \<Rightarrow> product_info list \<Rightarrow> product_review list
     \<Rightarrow> error + cleaned list" where
  "clean parse df1 df2 =
     (case fill_categoricals (fill_review_title (dropna_review_text (merge df1 df2))) of
        Inl e \<Rightarrow> Inl e
      | Inr df \<Rightarrow> type_columns parse df)"

definition review_of :: "nat \<times> cleaned \<Rightarrow> review_row" where
  "review_of ir =
     \<lparr> f_review_id = int (fst ir) + 1,
       f_product_id = c_product_id (snd ir),
       f_brand_id = c_brand_id (snd ir),
       f_reviewer_id = c_reviewer_id (snd ir),
       f_date_id = c_full_date (snd ir),
       f_review_title = c_review_title (snd ir),
       f_review_text = c_review_text (snd ir),
       f_review_rating = c_review_rating (snd ir) \<rparr>"

definition product_of :: "cleaned \<Rightarrow> product_row" where
  "product_of r =
     \<lparr> p_product_id = c_product_id r,
       p_product_name = c_product_name r,
       p_avg_product_rating = c_avg_product_rating r,
       p_product_price = c_product_price r,
       p_product_reviews_count = c_product_reviews_count r,
       p_favorites_count = c_favorites_count r,
       p_variations_count = c_variations_count r,
       p_product_category = c_product_category r \<rparr>"

definition brand_of :: "cleaned \<Rightarrow> brand_row" where
  "brand_of r = \<lparr> b_brand_id = c_brand_id r, b_brand_name = c_brand_name r \<rparr>"

definition reviewer_of :: "cleaned \<Rightarrow> reviewer_row" where
  "reviewer_of r =
     \<lparr> r_reviewer_id = c_reviewer_id r,
       r_reviewer_skin_tone = c_reviewer_skin_tone r,
       r_reviewer_skin_type = c_reviewer_skin_type r,
       r_reviewer_eye_color = c_reviewer_eye_color r,
       r_reviewer_hair_color = c_reviewer_hair_color r \<rparr>"

definition date_of :: "cleaned \<Rightarrow> date_row" where
  "date_of r =
     \<lparr> d_date_id = c_full_date r, d_year = c_year r, d_month = c_month r, d_day = c_day r \<rparr>"

text \<open>
  The fact table numbers the rows from 1 in their order (\<^verbatim>\<open>reset_index\<close>, then
  \<^verbatim>\<open>index + 1\<close>); each dimension is a projection with its duplicates dropped.
\<close>

definition tables :: "cleaned list \<Rightarrow> outputs" where
  "tables df =
     \<lparr> reviews_df = map review_of (enumerate 0 df),
       product_df = drop_duplicates p_product_id (map product_of df),
       brand_df = drop_duplicates b_brand_id (map brand_of df),
       reviewer_df = drop_duplicates r_reviewer_id (map reviewer_of df),
       date_df = drop_duplicates d_date_id (map date_of df) \<rparr>"

definition transform_data ::
  "(string \<Rightarrow> timestamp option) \<Rightarrow> product_info list \<Rightarrow> product_review list
     \<Rightarrow> error + outputs" where
  "transform_data parse df1 df2 =
     (case clean parse df1 df2 of Inl e \<Rightarrow> Inl e | Inr df \<Rightarrow> Inr (tables df))"

subsection \<open>Notions the claims speak of\<close>

text \<open>
  A most frequent non-null value of a column, in the words of the specification: it
  occurs in the column, and no non-null value occurs more often.
\<close>

definition most_frequent :: "string option list \<Rightarrow> string \<Rightarrow> bool" where
  "most_frequent col v =
     (Some v \<in> set col \<and> (\<forall>x\<in>set col. x \<noteq> None \<longrightarrow> count_list col x \<le> count_list col (Some v)))"

text \<open>
  The merged row after the null policies, for the four modes the columns had: the title
  default and the four imputations.
\<close>

definition fill_row :: "string \<Rightarrow> string \<Rightarrow> string \<Rightarrow> string \<Rightarrow> merged \<Rightarrow> merged" where
  "fill_row tone eye stype hair r =
     r\<lparr> m_review_title := fillna ''Review Provided'' (m_review_title r),
        m_reviewer_skin_tone := fillna tone (m_reviewer_skin_tone r),
        m_reviewer_eye_color := fillna eye (m_reviewer_eye_color r),
        m_reviewer_skin_type := fillna stype (m_reviewer_skin_type r),
        m_reviewer_hair_color := fillna hair (m_reviewer_hair_color r) \<rparr>"

text \<open>
  The constraint \<^verbatim>\<open>brand_name TEXT UNIQUE\<close> that \<^verbatim>\<open>CREATE_TABLE_QUERIES\<close> declares on
  \<^verbatim>\<open>tbl_brand\<close>, on the rows to insert.
\<close>

definition tbl_brand_unique :: "brand_row list \<Rightarrow> bool" where
  "tbl_brand_unique rows = distinct (map b_brand_name rows)"

subsection \<open>Example tables\<close>

text \<open>
  A date parser to put for \<open>parse\<close> in the examples: it reads the form
  \<^verbatim>\<open>YYYY-MM-DD\<close> of a real calendar day, in the years a nanosecond timestamp holds
  in full, as midnight of that day, and rejects every other text.
\<close>

definition leap_year :: "int \<Rightarrow> bool" where
  "leap_year y = (if y mod 100 = 0 then y mod 400 = 0 else y mod 4 = 0)"

definition days_in_month :: "int \<Rightarrow> int \<Rightarrow> int" where
  "days_in_month y m =
     (if m = 2 then (if leap_year y then 29 else 28)
      else if m = 4 \<or> m = 6 \<or> m = 9 \<or> m = 11 then 30 else 31)"

definition iso_date :: "string \<Rightarrow> timestamp option" where
  "iso_date s =
     (if length s = 10 \<and> s ! 4 = CHR ''-'' \<and> s ! 7 = CHR ''-''
         \<and> list_all is_ascii_digit (take 4 s @ take 2 (drop 5 s) @ drop 8 s)
      then (let y = int (decimal_value (take 4 s));
                m = int (decimal_value (take 2 (drop 5 s)));
                d = int (decimal_value (drop 8 s))
            in if 1678 \<le> y \<and> y \<le> 2261 \<and> 1 \<le> m \<and> m \<le> 12 \<and> 1 \<le> d \<and> d \<le> days_in_month y m
               then Some (Timestamp y m d 0) else None)
      else None)"

text \<open>
  Three products and five reviews. Product \<^verbatim>\<open>P3\<close> has no review; the second review has
  a reviewer id that is not a number, the fourth has no text; the last review of \<^verbatim>\<open>P1\<close>
  spells the product and the brand differently; both brands carry the same name.
\<close>

definition ex_df1 :: "product_info list" where
  "ex_df1 =
     [\<lparr> df1_product_id = ''P1'', df1_brand_id = 7, df1_loves_count = Some 120,
        df1_rating = Some 4.5, df1_reviews = Some 3, df1_primary_category = Some ''Skincare'',
        df1_child_count = Some 0 \<rparr>,
      \<lparr> df1_product_id = ''P2'', df1_brand_id = 8, df1_loves_count = None,
        df1_rating = None, df1_reviews = Some 1, df1_primary_category = None,
        df1_child_count = Some 2 \<rparr>,
      \<lparr> df1_product_id = ''P3'', df1_brand_id = 9, df1_loves_count = Some 5,
        df1_rating = Some 3, df1_reviews = None, df1_primary_category = Some ''Makeup'',
        df1_child_count = None \<rparr>]"

definition ex_df2 :: "product_review list" where
  "ex_df2 =
     [\<lparr> df2_author_id = ''100'', df2_rating = Some 5, df2_submission_time = ''2023-01-05'',
        df2_review_text = Some ''Great'', df2_review_title = None,
        df2_skin_tone = Some ''fair'', df2_eye_color = None,
        df2_skin_type = Some ''dry'', df2_hair_color = Some ''black'',
        df2_product_id = ''P1'', df2_product_name = ''Serum'', df2_brand_name = ''Acme'',
        df2_price_usd = 10 \<rparr>,
      \<lparr> df2_author_id = ''abc'', df2_rating = Some 4, df2_submission_time = ''2023-01-06'',
        df2_review_text = Some ''Nice'', df2_review_title = Some ''Good buy'',
        df2_skin_tone = Some ''light'', df2_eye_color = Some ''brown'',
        df2_skin_type = Some ''oily'', df2_hair_color = None,
        df2_product_id = ''P1'', df2_product_name = ''Serum'', df2_brand_name = ''Acme'',
        df2_price_usd = 10 \<rparr>,
      \<lparr> df2_author_id = ''100'', df2_rating = None, df2_submission_time = ''2023-01-05'',
        df2_review_text = Some ''Fine'', df2_review_title = Some ''Again'',
        df2_skin_tone = None, df2_eye_color = Some ''blue'',
        df2_skin_type = None, df2_hair_color = Some ''black'',
        df2_product_id = ''P2'', df2_product_name = ''Cream'', df2_brand_name = ''Acme'',
        df2_price_usd = 25 \<rparr>,
      \<lparr> df2_author_id = ''200'', df2_rating = Some 1, df2_submission_time = ''2023-01-07'',
        df2_review_text = None, df2_review_title = Some ''No text'',
        df2_skin_tone = Some ''light'', df2_eye_color = Some ''brown'',
        df2_skin_type = Some ''oily'', df2_hair_color = Some ''red'',
        df2_product_id = ''P1'', df2_product_name = ''Serum'', df2_brand_name = ''Acme'',
        df2_price_usd = 10 \<rparr>,
      \<lparr> df2_author_id = ''300'', df2_rating = Some 3, df2_submission_time = ''2023-02-01'',
        df2_review_text = Some ''Good'', df2_review_title = Some ''Repeat'',
        df2_skin_tone = Some ''light'', df2_eye_color = Some ''brown'',
        df2_skin_type = Some ''oily'', df2_hair_color = Some ''red'',
        df2_product_id = ''P1'', df2_product_name = ''Serum XL'', df2_brand_name = ''ACME'',
        df2_price_usd = 12 \<rparr>]"


text \<open>
  One product and one review of it that passes every step; the examples below change one
  cell of the review at a time.
\<close>

definition cx_product :: product_info where
  "cx_product =
     \<lparr> df1_product_id = ''P1'', df1_brand_id = 7, df1_loves_count = Some 120,
       df1_rating = Some 4.5, df1_reviews = Some 3, df1_primary_category = Some ''Skincare'',
       df1_child_count = Some 0 \<rparr>"

definition cx_review :: product_review where
  "cx_review =
     \<lparr> df2_author_id = ''100'', df2_rating = Some 5, df2_submission_time = ''2023-01-05'',
       df2_review_text = Some ''Great'', df2_review_title = None,
       df2_skin_tone = Some ''fair'', df2_eye_color = Some ''brown'',
       df2_skin_type = Some ''dry'', df2_hair_color = Some ''black'',
       df2_product_id = ''P1'', df2_product_name = ''Serum'', df2_brand_name = ''Acme'',
       df2_price_usd = 10 \<rparr>"

text \<open>The cleaned frame of the example.\<close>

definition ex_rows :: "cleaned list" where
  "ex_rows =
     [\<lparr> c_product_id = ''P1'', c_brand_id = 7, c_favorites_count = Some 120,
        c_avg_product_rating = Some 4.5, c_product_reviews_count = Some 3,
        c_product_category = Some ''Skincare'', c_variations_count = Some 0,
        c_reviewer_id = 100, c_review_rating = Some 5,
        c_full_date = Some (Timestamp 2023 1 5 0), c_review_text = Some ''Great'',
        c_review_title = Some ''Review Provided'', c_reviewer_skin_tone = Some ''fair'',
        c_reviewer_eye_color = Some ''brown'', c_reviewer_skin_type = Some ''dry'',
        c_reviewer_hair_color = Some ''black'', c_product_name = ''Serum'',
        c_brand_name = ''Acme'', c_product_price = 10, c_year = Some 2023,
        c_month = Some 1, c_day = Some 5 \<rparr>,
      \<lparr> c_product_id = ''P1'', c_brand_id = 7, c_favorites_count = Some 120,
        c_avg_product_rating = Some 4.5, c_product_reviews_count = Some 3,
        c_product_category = Some ''Skincare'', c_variations_count = Some 0,
        c_reviewer_id = 300, c_review_rating = Some 3,
        c_full_date = Some (Timestamp 2023 2 1 0), c_review_text = Some ''Good'',
        c_review_title = Some ''Repeat'', c_reviewer_skin_tone = Some ''light'',
        c_reviewer_eye_color = Some ''brown'', c_reviewer_skin_type = Some ''oily'',
        c_reviewer_hair_color = Some ''red'', c_product_name = ''Serum XL'',
        c_brand_name = ''ACME'', c_product_price = 12, c_year = Some 2023,
        c_month = Some 2, c_day = Some 1 \<rparr>,
      \<lparr> c_product_id = ''P2'', c_brand_id = 8, c_favorites_count = None,
        c_avg_product_rating = None, c_product_reviews_count = Some 1,
        c_product_category = None, c_variations_count = Some 2,
        c_reviewer_id = 100, c_review_rating = None,
        c_full_date = Some (Timestamp 2023 1 5 0), c_review_text = Some ''Fine'',
        c_review_title = Some ''Again'', c_reviewer_skin_tone = Some ''light'',
        c_reviewer_eye_color = Some ''blue'', c_reviewer_skin_type = Some ''oily'',
        c_reviewer_hair_color = Some ''black'', c_product_name = ''Cream'',
        c_brand_name = ''Acme'', c_product_price = 25, c_year = Some 2023,
        c_month = Some 1, c_day = Some 5 \<rparr>]"


section \<open>Properties\<close>

subsection \<open>Dropping duplicates\<close>

lemma set_drop_duplicates_subset: "set (drop_duplicates key xs) \<subseteq> set xs"
  by (induction key xs rule: drop_duplicates.induct) auto

lemma keys_drop_duplicates: "key ` set (drop_duplicates key xs) = key ` set xs"
proof (induction key xs rule: drop_duplicates.induct)
  case (1 key)
  then show ?case by simp
next
  case (2 key x xs)
  have "key ` set (x # xs) = insert (key x) (key ` set (filter (\<lambda>y. key y \<noteq> key x) xs))"
    by auto
  with 2 show ?case by simp
qed

lemma distinct_drop_duplicates: "distinct (map key (drop_duplicates key xs))"
proof (induction key xs rule: drop_duplicates.induct)
  case (1 key)
  then show ?case by simp
next
  case (2 key x xs)
  have "key x \<notin> key ` set (filter (\<lambda>y. key y \<noteq> key x) xs)"
    by auto
  then have "key x \<notin> key ` set (drop_duplicates key (filter (\<lambda>y. key y \<noteq> key x) xs))"
    unfolding keys_drop_duplicates .
  with 2 show ?case by simp
qed

lemma find_filter_other:
  "k \<noteq> k' \<Longrightarrow> find (\<lambda>y. key y = k) (filter (\<lambda>y. key y \<noteq> k') xs) = find (\<lambda>y. key y = k) xs"
  by (induction xs) auto

lemma find_drop_duplicates:
  "find (\<lambda>y. key y = k) (drop_duplicates key xs) = find (\<lambda>y. key y = k) xs"
proof (induction key xs rule: drop_duplicates.induct)
  case (1 key)
  then show ?case by simp
next
  case (2 key x xs)
  show ?case
  proof (cases "key x = k")
    case True
    then show ?thesis by simp
  next
    case False
    then have "k \<noteq> key x" by blast
    with 2 False show ?thesis by (simp add: find_filter_other)
  qed
qed

lemma find_map_key:
  "(\<And>x. key' (f x) = key x) \<Longrightarrow>
   find (\<lambda>y. key' y = k) (map f xs) = map_option f (find (\<lambda>x. key x = k) xs)"
  by (induction xs) auto

lemma count_list_distinct_one:
  "distinct xs \<Longrightarrow> x \<in> set xs \<Longrightarrow> count_list xs x = 1"
  by (induction xs) auto

lemma count_key_drop_duplicates:
  assumes "x \<in> set xs"
  shows "count_list (map key (drop_duplicates key xs)) (key x) = 1"
proof -
  have "key x \<in> key ` set (drop_duplicates key xs)"
    using assms by (simp only: keys_drop_duplicates) blast
  then have "key x \<in> set (map key (drop_duplicates key xs))" by simp
  then show ?thesis
    using distinct_drop_duplicates [of key xs] by (rule_tac count_list_distinct_one)
qed


lemma find_own_key:
  "distinct (map key xs) \<Longrightarrow> d \<in> set xs \<Longrightarrow> find (\<lambda>y. key y = key d) xs = Some d"
  by (induction xs) (auto simp: image_iff)

lemma dimension_row_is_first:
  assumes "\<And>x. key' (f x) = key x" and "d \<in> set (drop_duplicates key' (map f xs))"
  shows "map_option f (find (\<lambda>x. key x = key' d) xs) = Some d"
proof -
  have "find (\<lambda>y. key' y = key' d) (drop_duplicates key' (map f xs)) = Some d"
    using distinct_drop_duplicates assms(2) by (rule find_own_key)
  then have "find (\<lambda>y. key' y = key' d) (map f xs) = Some d"
    by (simp only: find_drop_duplicates)
  then show ?thesis
    by (simp only: find_map_key [of key' f key, OF assms(1)])
qed

subsection \<open>Column operations that can raise\<close>

lemma sequence_map_Inr:
  "sequence (map g xs) = Inr ys \<Longrightarrow>
     ys = map (\<lambda>x. projr (g x)) xs \<and> (\<forall>x\<in>set xs. g x = Inr (projr (g x)))"
proof (induction xs arbitrary: ys)
  case Nil
  then show ?case by simp
next
  case (Cons x xs)
  then show ?case by (auto split: sum.splits)
qed

lemma sequence_map_Inl:
  "sequence (map g xs) = Inl e \<Longrightarrow> \<exists>x\<in>set xs. g x = Inl e"
proof (induction xs)
  case Nil
  then show ?case by simp
next
  case (Cons x xs)
  then show ?case by (auto split: sum.splits)
qed

lemma sequence_map_fails:
  "x \<in> set xs \<Longrightarrow> g x = Inl e \<Longrightarrow> \<exists>e'. sequence (map g xs) = Inl e'"
proof (induction xs)
  case Nil
  then show ?case by simp
next
  case (Cons y ys)
  then show ?case by (auto split: sum.splits)
qed

lemma zip_map_self: "zip xs (map h xs) = map (\<lambda>x. (x, h x)) xs"
  by (induction xs) auto

lemma zip_map_both: "zip (map f xs) (map g xs) = map (\<lambda>x. (f x, g x)) xs"
  by (induction xs) auto

lemma type_columns_Inr:
  assumes "type_columns parse df = Inr out"
  shows "out = map (\<lambda>r. typed_row r (projr (to_datetime1 parse (m_full_date r)))
                                   (projr (py_int (m_reviewer_id r))))
                   (filter (\<lambda>r. checkNumeric (m_reviewer_id r)) df)"
    and "\<forall>r\<in>set df. to_datetime1 parse (m_full_date r) =
                        Inr (projr (to_datetime1 parse (m_full_date r)))"
    and "\<forall>r\<in>set (filter (\<lambda>r. checkNumeric (m_reviewer_id r)) df).
            py_int (m_reviewer_id r) = Inr (projr (py_int (m_reviewer_id r)))"
proof -
  let ?h = "\<lambda>r. projr (to_datetime1 parse (m_full_date r))"
  let ?j = "\<lambda>r. projr (py_int (m_reviewer_id r))"
  let ?P = "\<lambda>r. checkNumeric (m_reviewer_id r)"
  obtain dates where d: "to_datetime parse (map m_full_date df) = Inr dates"
    using assms by (auto simp: type_columns_def split: sum.splits)
  then have "sequence (map (\<lambda>r. to_datetime1 parse (m_full_date r)) df) = Inr dates"
    by (simp add: to_datetime_def comp_def)
  from sequence_map_Inr [OF this]
  have dates: "dates = map ?h df"
    and ok: "\<forall>r\<in>set df. to_datetime1 parse (m_full_date r) = Inr (?h r)"
    by blast+
  let ?kept = "filter (\<lambda>(r, d). checkNumeric (m_reviewer_id r)) (zip df dates)"
  have kept: "?kept = map (\<lambda>r. (r, ?h r)) (filter ?P df)"
    by (simp add: dates zip_map_self filter_map comp_def)
  obtain ids where i: "sequence (map (\<lambda>(r, d). py_int (m_reviewer_id r)) ?kept) = Inr ids"
    and out: "out = map (\<lambda>((r, d), i). typed_row r d i) (zip ?kept ids)"
    using assms d by (auto simp: type_columns_def Let_def split: sum.splits)
  from i have "sequence (map (\<lambda>r. py_int (m_reviewer_id r)) (filter ?P df)) = Inr ids"
    by (simp add: kept comp_def)
  from sequence_map_Inr [OF this]
  have ids: "ids = map ?j (filter ?P df)"
    and ok2: "\<forall>r\<in>set (filter ?P df). py_int (m_reviewer_id r) = Inr (?j r)"
    by blast+
  have "zip ?kept ids = map (\<lambda>r. ((r, ?h r), ?j r)) (filter ?P df)"
    unfolding kept ids by (rule zip_map_both)
  then show "out = map (\<lambda>r. typed_row r (?h r) (?j r)) (filter ?P df)"
    by (simp add: out comp_def)
  show "\<forall>r\<in>set df. to_datetime1 parse (m_full_date r) = Inr (?h r)" by (rule ok)
  show "\<forall>r\<in>set (filter ?P df). py_int (m_reviewer_id r) = Inr (?j r)" by (rule ok2)
qed


subsection \<open>The example, evaluated\<close>

lemma ex_clean: "clean iso_date ex_df1 ex_df2 = Inr ex_rows"
  by code_simp

text \<open>
  The order of the merge where a \<^verbatim>\<open>product_id\<close> comes back later in the left frame: the
  rows of \<^verbatim>\<open>P1\<close> come together, before the row of \<^verbatim>\<open>P2\<close>.
\<close>

lemma merge_groups_by_key:
  "map (\<lambda>r. (m_product_id r, m_brand_id r, m_reviewer_id r))
     (merge [cx_product,
             cx_product\<lparr>df1_product_id := ''P2'', df1_brand_id := 70\<rparr>,
             cx_product\<lparr>df1_brand_id := 70\<rparr>]
            [cx_review,
             cx_review\<lparr>df2_product_id := ''P2'', df2_author_id := ''2''\<rparr>]) =
   [(''P1'', 7, ''100''), (''P1'', 70, ''100''), (''P2'', 70, ''2'')]"
  by code_simp

lemma transform_data_Inr:
  "transform_data parse df1 df2 = Inr out \<Longrightarrow> \<exists>df. clean parse df1 df2 = Inr df \<and> out = tables df"
  by (auto simp: transform_data_def split: sum.splits)

lemma ex_transform: "transform_data iso_date ex_df1 ex_df2 = Inr (tables ex_rows)"
  by (simp add: transform_data_def ex_clean)

lemma review_rows_from:
  "f \<in> set (map review_of (enumerate 0 df)) \<Longrightarrow> \<exists>r\<in>set df. \<exists>i. f = review_of (i, r)"
  by (auto simp: in_set_enumerate_eq)

lemma ex_fact_row:
  "\<lparr> f_review_id = 3, f_product_id = ''P2'', f_brand_id = 8, f_reviewer_id = 100,
     f_date_id = Some (Timestamp 2023 1 5 0), f_review_title = Some ''Again'',
     f_review_text = Some ''Fine'', f_review_rating = None \<rparr>
   \<in> set (reviews_df (tables ex_rows))"
  by code_simp

lemma upto_as_map: "map (\<lambda>k. int k + 1) [0..<n] = [1..int n]"
proof (induction n)
  case 0
  then show ?case by simp
next
  case (Suc n)
  have "[1..int (Suc n)] = [1..int n] @ [int n + 1]"
    by (simp add: upto_rec2 add.commute)
  with Suc show ?case by simp
qed

subsection \<open>The null policies\<close>

lemma count_list_non_null:
  "count_list (map the (filter (\<lambda>x. x \<noteq> None) col)) w = count_list col (Some w)"
  by (induction col) auto

lemma set_non_null:
  "v \<in> set (map the (filter (\<lambda>x. x \<noteq> None) col)) \<longleftrightarrow> Some v \<in> set col"
  by (induction col) auto

lemma mode0_Inr:
  assumes "mode0 col = Inr m"
  shows "most_frequent col m"
proof -
  let ?vs = "map the (filter (\<lambda>x. x \<noteq> None) col)"
  let ?top = "filter (\<lambda>v. list_all (\<lambda>w. count_list ?vs w \<le> count_list ?vs v) ?vs) ?vs"
  from assms obtain ms where "mode col = m # ms"
    by (auto simp: mode0_def split: list.splits)
  then have "m \<in> set (mode col)" by simp
  then have "m \<in> set ?top"
    by (simp add: mode_def Let_def)
  then have m: "m \<in> set ?vs" and top: "\<forall>w\<in>set ?vs. count_list ?vs w \<le> count_list ?vs m"
    by (auto simp: list_all_iff)
  from m have "Some m \<in> set col" by (simp only: set_non_null)
  moreover
  have "count_list col x \<le> count_list col (Some m)" if "x \<in> set col" "x \<noteq> None" for x
  proof -
    from that obtain w where x: "x = Some w" by auto
    with that have "w \<in> set ?vs" by (simp only: set_non_null)
    with top have "count_list ?vs w \<le> count_list ?vs m" by blast
    then show ?thesis by (simp only: count_list_non_null x)
  qed
  ultimately show ?thesis by (simp add: most_frequent_def)
qed

lemma mode0_error: "mode0 col = Inl e \<Longrightarrow> e = KeyError"
  by (auto simp: mode0_def split: list.splits)

lemma mode0_all_null: "\<forall>x\<in>set col. x = None \<Longrightarrow> mode0 col = Inl KeyError"
proof -
  assume "\<forall>x\<in>set col. x = None"
  then have "filter (\<lambda>x. x \<noteq> None) col = []"
    by (simp add: filter_empty_conv)
  then show ?thesis
    by (simp add: mode0_def mode_def)
qed

lemma fill_categoricals_Inr:
  assumes "fill_categoricals (fill_review_title df) = Inr df'"
  shows "\<exists>tone eye stype hair.
           mode0 (map m_reviewer_skin_tone df) = Inr tone
         \<and> mode0 (map m_reviewer_eye_color df) = Inr eye
         \<and> mode0 (map m_reviewer_skin_type df) = Inr stype
         \<and> mode0 (map m_reviewer_hair_color df) = Inr hair
         \<and> df' = map (fill_row tone eye stype hair) df"
  using assms
  by (auto simp: fill_categoricals_def fill_review_title_def fill_skin_tone_def
      fill_eye_color_def fill_skin_type_def fill_hair_color_def fill_row_def comp_def
      split: sum.splits)

lemma fill_categoricals_error: "fill_categoricals df = Inl e \<Longrightarrow> e = KeyError"
  by (auto simp: fill_categoricals_def fill_skin_tone_def
      fill_eye_color_def fill_skin_type_def fill_hair_color_def
      split: sum.splits dest: mode0_error)

lemma fill_categoricals_undefined_mode:
  assumes "(\<forall>r\<in>set df. m_reviewer_skin_tone r = None)
         \<or> (\<forall>r\<in>set df. m_reviewer_eye_color r = None)
         \<or> (\<forall>r\<in>set df. m_reviewer_skin_type r = None)
         \<or> (\<forall>r\<in>set df. m_reviewer_hair_color r = None)"
  shows "fill_categoricals (fill_review_title df) = Inl KeyError"
proof (cases "fill_categoricals (fill_review_title df)")
  case (Inl e)
  then show ?thesis using fill_categoricals_error by blast
next
  case (Inr df')
  from fill_categoricals_Inr [OF this] obtain tone eye stype hair where
    "mode0 (map m_reviewer_skin_tone df) = Inr tone"
    "mode0 (map m_reviewer_eye_color df) = Inr eye"
    "mode0 (map m_reviewer_skin_type df) = Inr stype"
    "mode0 (map m_reviewer_hair_color df) = Inr hair"
    by blast
  moreover from assms have
    "mode0 (map m_reviewer_skin_tone df) = Inl KeyError
     \<or> mode0 (map m_reviewer_eye_color df) = Inl KeyError
     \<or> mode0 (map m_reviewer_skin_type df) = Inl KeyError
     \<or> mode0 (map m_reviewer_hair_color df) = Inl KeyError"
    by (auto intro!: mode0_all_null)
  ultimately show ?thesis by auto
qed

lemma fill_row_keeps [simp]:
  "m_reviewer_id (fill_row tone eye stype hair r) = m_reviewer_id r"
  "m_full_date (fill_row tone eye stype hair r) = m_full_date r"
  "m_review_text (fill_row tone eye stype hair r) = m_review_text r"
  by (simp_all add: fill_row_def)

lemma clean_Inr:
  assumes "clean parse df1 df2 = Inr df"
  shows "\<exists>tone eye stype hair.
           mode0 (map m_reviewer_skin_tone (dropna_review_text (merge df1 df2))) = Inr tone
         \<and> mode0 (map m_reviewer_eye_color (dropna_review_text (merge df1 df2))) = Inr eye
         \<and> mode0 (map m_reviewer_skin_type (dropna_review_text (merge df1 df2))) = Inr stype
         \<and> mode0 (map m_reviewer_hair_color (dropna_review_text (merge df1 df2))) = Inr hair
         \<and> df = map (\<lambda>r. typed_row (fill_row tone eye stype hair r)
                           (projr (to_datetime1 parse (m_full_date r)))
                           (projr (py_int (m_reviewer_id r))))
                    (filter (\<lambda>r. checkNumeric (m_reviewer_id r))
                       (dropna_review_text (merge df1 df2)))"
    and "\<forall>r\<in>set (dropna_review_text (merge df1 df2)).
           to_datetime1 parse (m_full_date r) =
             Inr (projr (to_datetime1 parse (m_full_date r)))"
    and "\<forall>r\<in>set (filter (\<lambda>r. checkNumeric (m_reviewer_id r))
                      (dropna_review_text (merge df1 df2))).
           py_int (m_reviewer_id r) = Inr (projr (py_int (m_reviewer_id r)))"
proof -
  let ?base = "dropna_review_text (merge df1 df2)"
  from assms obtain df' where f: "fill_categoricals (fill_review_title ?base) = Inr df'"
    and t: "type_columns parse df' = Inr df"
    by (auto simp: clean_def split: sum.splits)
  from fill_categoricals_Inr [OF f] obtain tone eye stype hair where
    modes: "mode0 (map m_reviewer_skin_tone ?base) = Inr tone"
      "mode0 (map m_reviewer_eye_color ?base) = Inr eye"
      "mode0 (map m_reviewer_skin_type ?base) = Inr stype"
      "mode0 (map m_reviewer_hair_color ?base) = Inr hair"
    and df': "df' = map (fill_row tone eye stype hair) ?base"
    by blast
  from type_columns_Inr(1) [OF t]
  have "df = map (\<lambda>r. typed_row (fill_row tone eye stype hair r)
                           (projr (to_datetime1 parse (m_full_date r)))
                           (projr (py_int (m_reviewer_id r))))
                    (filter (\<lambda>r. checkNumeric (m_reviewer_id r)) ?base)"
    by (simp add: df' filter_map comp_def)
  with modes show "\<exists>tone eye stype hair.
           mode0 (map m_reviewer_skin_tone ?base) = Inr tone
         \<and> mode0 (map m_reviewer_eye_color ?base) = Inr eye
         \<and> mode0 (map m_reviewer_skin_type ?base) = Inr stype
         \<and> mode0 (map m_reviewer_hair_color ?base) = Inr hair
         \<and> df = map (\<lambda>r. typed_row (fill_row tone eye stype hair r)
                           (projr (to_datetime1 parse (m_full_date r)))
                           (projr (py_int (m_reviewer_id r))))
                    (filter (\<lambda>r. checkNumeric (m_reviewer_id r)) ?base)"
    by blast
  from type_columns_Inr(2) [OF t]
  show "\<forall>r\<in>set ?base. to_datetime1 parse (m_full_date r) =
             Inr (projr (to_datetime1 parse (m_full_date r)))"
    by (simp add: df')
  from type_columns_Inr(3) [OF t]
  show "\<forall>r\<in>set (filter (\<lambda>r. checkNumeric (m_reviewer_id r)) ?base).
           py_int (m_reviewer_id r) = Inr (projr (py_int (m_reviewer_id r)))"
    by (simp add: df' filter_map comp_def)
qed

subsection \<open>Columns of the tables\<close>

lemma fact_columns:
  "map (\<lambda>f. (f_product_id f, f_brand_id f, f_reviewer_id f, f_date_id f,
              f_review_title f, f_review_text f, f_review_rating f)) (reviews_df (tables df)) =
   map (\<lambda>c. (c_product_id c, c_brand_id c, c_reviewer_id c, c_full_date c,
              c_review_title c, c_review_text c, c_review_rating c)) df"
proof -
  have "map (\<lambda>f. (f_product_id f, f_brand_id f, f_reviewer_id f, f_date_id f,
              f_review_title f, f_review_text f, f_review_rating f))
          (map review_of (enumerate 0 df)) =
        map (\<lambda>c. (c_product_id c, c_brand_id c, c_reviewer_id c, c_full_date c,
              c_review_title c, c_review_text c, c_review_rating c))
          (map snd (enumerate 0 df))"
    by (simp add: review_of_def comp_def del: map_snd_enumerate)
  then show ?thesis
    by (simp add: tables_def)
qed

lemma fact_column:
  "map f_review_text (reviews_df (tables df)) = map c_review_text df"
  "map f_date_id (reviews_df (tables df)) = map c_full_date df"
  "map f_reviewer_id (reviews_df (tables df)) = map c_reviewer_id df"
  "map f_product_id (reviews_df (tables df)) = map c_product_id df"
  "map f_brand_id (reviews_df (tables df)) = map c_brand_id df"
  "map f_review_rating (reviews_df (tables df)) = map c_review_rating df"
  using fact_columns [of df, THEN arg_cong, of "map (\<lambda>(a, b, c, d, e, f, g). f)"]
    fact_columns [of df, THEN arg_cong, of "map (\<lambda>(a, b, c, d, e, f, g). d)"]
    fact_columns [of df, THEN arg_cong, of "map (\<lambda>(a, b, c, d, e, f, g). c)"]
    fact_columns [of df, THEN arg_cong, of "map (\<lambda>(a, b, c, d, e, f, g). a)"]
    fact_columns [of df, THEN arg_cong, of "map (\<lambda>(a, b, c, d, e, f, g). b)"]
    fact_columns [of df, THEN arg_cong, of "map (\<lambda>(a, b, c, d, e, f, g). g)"]
  by (simp_all add: comp_def)

lemma typed_row_fields [simp]:
  "c_review_text (typed_row r d i) = m_review_text r"
  "c_full_date (typed_row r d i) = d"
  "c_reviewer_id (typed_row r d i) = i"
  "c_product_id (typed_row r d i) = m_product_id r"
  "c_brand_id (typed_row r d i) = m_brand_id r"
  "c_review_rating (typed_row r d i) = m_review_rating r"
  "c_reviewer_skin_tone (typed_row r d i) = m_reviewer_skin_tone r"
  "c_reviewer_eye_color (typed_row r d i) = m_reviewer_eye_color r"
  "c_reviewer_skin_type (typed_row r d i) = m_reviewer_skin_type r"
  "c_reviewer_hair_color (typed_row r d i) = m_reviewer_hair_color r"
  by (simp_all add: typed_row_def)

lemma fill_row_fields [simp]:
  "m_product_id (fill_row tone eye stype hair r) = m_product_id r"
  "m_brand_id (fill_row tone eye stype hair r) = m_brand_id r"
  "m_review_rating (fill_row tone eye stype hair r) = m_review_rating r"
  "m_reviewer_skin_tone (fill_row tone eye stype hair r) = fillna tone (m_reviewer_skin_tone r)"
  "m_reviewer_eye_color (fill_row tone eye stype hair r) = fillna eye (m_reviewer_eye_color r)"
  "m_reviewer_skin_type (fill_row tone eye stype hair r) = fillna stype (m_reviewer_skin_type r)"
  "m_reviewer_hair_color (fill_row tone eye stype hair r) = fillna hair (m_reviewer_hair_color r)"
  by (simp_all add: fill_row_def)

lemma fillna_if: "fillna v x = (if x = None then Some v else x)"
  by (cases x) (simp_all add: fillna_def)

subsection \<open>Dates and reviewer ids\<close>

lemma to_datetime1_error: "to_datetime1 parse s = Inl e \<Longrightarrow> e = ParserError"
  by (auto simp: to_datetime1_def split: if_splits option.splits)

lemma to_datetime1_unparsed:
  "s \<noteq> [] \<Longrightarrow> s \<notin> set nat_strings \<Longrightarrow> parse s = None \<Longrightarrow>
   to_datetime1 parse s = Inl ParserError"
  by (simp add: to_datetime1_def)

lemma to_datetime1_value:
  "to_datetime1 parse s = Inr d \<Longrightarrow>
   d = (if s = [] \<or> s \<in> set nat_strings then None else parse s)"
  by (auto simp: to_datetime1_def split: if_splits option.splits)

lemma to_datetime_fails:
  assumes "r \<in> set df" and "to_datetime1 parse (m_full_date r) = Inl ParserError"
  shows "type_columns parse df = Inl ParserError"
proof -
  from sequence_map_fails [of r df "\<lambda>r. to_datetime1 parse (m_full_date r)", OF assms]
  obtain e where e: "sequence (map (\<lambda>r. to_datetime1 parse (m_full_date r)) df) = Inl e"
    by blast
  from sequence_map_Inl [OF this] have "e = ParserError"
    using to_datetime1_error by blast
  with e show ?thesis
    by (simp add: type_columns_def to_datetime_def comp_def)
qed

lemma date_parts_of_clean:
  assumes "clean parse df1 df2 = Inr df" and "c \<in> set df"
  shows "c_year c = map_option ts_year (c_full_date c)
       \<and> c_month c = map_option ts_month (c_full_date c)
       \<and> c_day c = map_option ts_day (c_full_date c)"
proof -
  from clean_Inr(1) [OF assms(1)] assms(2)
  obtain r d i where "c = typed_row r d i"
    by auto
  then show ?thesis
    by (simp add: typed_row_def)
qed

text \<open>
  What the reviewer step does with decimal ids, for identifiers of code points up to
  U+00FF: a non-empty string of the characters \<^verbatim>\<open>0\<close> .. \<^verbatim>\<open>9\<close> is accepted and becomes
  its decimal value; and when the transform returns, the fact rows are those of the rows
  with such an id, their ids are not negative, and the reviewer table has the same ids.
\<close>

lemma decimal_string_accepted:
  assumes "s \<noteq> []" and "list_all is_ascii_digit s"
  shows "checkNumeric s" and "py_int s = Inr (int (decimal_value s))"
  using assms by (auto simp: checkNumeric_def isdigit_def is_digit_char_def py_int_def list_all_iff)

lemma numeric_reviewer_rows:
  assumes "transform_data parse df1 df2 = Inr out"
  shows "map f_reviewer_id (reviews_df out) =
         map (\<lambda>r. int (decimal_value (m_reviewer_id r)))
             (filter (\<lambda>r. m_reviewer_id r \<noteq> [] \<and> list_all is_ascii_digit (m_reviewer_id r))
                (dropna_review_text (merge df1 df2)))"
    and "set (map r_reviewer_id (reviewer_df out)) = set (map f_reviewer_id (reviews_df out))"
    and "\<forall>i\<in>set (map f_reviewer_id (reviews_df out)). 0 \<le> i"
proof -
  let ?base = "dropna_review_text (merge df1 df2)"
  let ?kept = "filter (\<lambda>r. checkNumeric (m_reviewer_id r)) ?base"
  obtain df where c: "clean parse df1 df2 = Inr df" and out: "out = tables df"
    using transform_data_Inr [OF assms] by blast
  from clean_Inr(1) [OF c]
  have ids: "map c_reviewer_id df = map (\<lambda>r. projr (py_int (m_reviewer_id r))) ?kept"
    by (auto simp: comp_def)
  have ok: "m_reviewer_id r \<noteq> [] \<and> list_all is_ascii_digit (m_reviewer_id r)
          \<and> projr (py_int (m_reviewer_id r)) = int (decimal_value (m_reviewer_id r))"
    if "r \<in> set ?kept" for r
  proof -
    from clean_Inr(3) [OF c] that
    have "py_int (m_reviewer_id r) = Inr (projr (py_int (m_reviewer_id r)))" by blast
    then show ?thesis
      by (auto simp: py_int_def split: if_splits)
  qed
  then have "?kept = filter (\<lambda>r. m_reviewer_id r \<noteq> [] \<and> list_all is_ascii_digit (m_reviewer_id r)) ?base"
    using decimal_string_accepted(1) by (intro filter_cong) auto
  moreover have "map (\<lambda>r. projr (py_int (m_reviewer_id r))) ?kept =
      map (\<lambda>r. int (decimal_value (m_reviewer_id r))) ?kept"
    using ok by (intro map_cong) simp_all
  ultimately show 1: "map f_reviewer_id (reviews_df out) =
         map (\<lambda>r. int (decimal_value (m_reviewer_id r)))
             (filter (\<lambda>r. m_reviewer_id r \<noteq> [] \<and> list_all is_ascii_digit (m_reviewer_id r)) ?base)"
    using ids by (simp add: out fact_column)
  then show "\<forall>i\<in>set (map f_reviewer_id (reviews_df out)). 0 \<le> i"
    by auto
  have "r_reviewer_id ` set (drop_duplicates r_reviewer_id (map reviewer_of df)) =
        r_reviewer_id ` set (map reviewer_of df)"
    by (rule keys_drop_duplicates)
  then show "set (map r_reviewer_id (reviewer_df out)) = set (map f_reviewer_id (reviews_df out))"
    by (simp add: out fact_column) (simp add: tables_def reviewer_of_def image_image)
qed

section \<open>The claims\<close>

text \<open>
  C1, referential closure. Whenever the transform returns its tables, every foreign key of
  every fact row (product, brand, reviewer, date) occurs exactly once among the key
  values of the dimension table it refers to.
\<close>

theorem referential_closure:
  assumes "transform_data parse df1 df2 = Inr out" and "f \<in> set (reviews_df out)"
  shows "count_list (map p_product_id (product_df out)) (f_product_id f) = 1
       \<and> count_list (map b_brand_id (brand_df out)) (f_brand_id f) = 1
       \<and> count_list (map r_reviewer_id (reviewer_df out)) (f_reviewer_id f) = 1
       \<and> count_list (map d_date_id (date_df out)) (f_date_id f) = 1"
proof -
  obtain df where out: "out = tables df"
    using transform_data_Inr [OF assms(1)] by blast
  with assms(2) have "f \<in> set (map review_of (enumerate 0 df))"
    by (simp add: tables_def)
  then obtain r i where r: "r \<in> set df" and f: "f = review_of (i, r)"
    using review_rows_from by blast
  have "count_list (map p_product_id (drop_duplicates p_product_id (map product_of df)))
          (p_product_id (product_of r)) = 1"
    using r by (intro count_key_drop_duplicates) simp
  moreover
  have "count_list (map b_brand_id (drop_duplicates b_brand_id (map brand_of df)))
          (b_brand_id (brand_of r)) = 1"
    using r by (intro count_key_drop_duplicates) simp
  moreover
  have "count_list (map r_reviewer_id (drop_duplicates r_reviewer_id (map reviewer_of df)))
          (r_reviewer_id (reviewer_of r)) = 1"
    using r by (intro count_key_drop_duplicates) simp
  moreover
  have "count_list (map d_date_id (drop_duplicates d_date_id (map date_of df)))
          (d_date_id (date_of r)) = 1"
    using r by (intro count_key_drop_duplicates) simp
  ultimately show ?thesis
    by (simp add: out f tables_def review_of_def product_of_def brand_of_def
        reviewer_of_def date_of_def)
qed

theorem referential_closure_witness:
  "count_list (map p_product_id (product_df (tables ex_rows))) ''P2'' = 1
   \<and> count_list (map b_brand_id (brand_df (tables ex_rows))) 8 = 1
   \<and> count_list (map r_reviewer_id (reviewer_df (tables ex_rows))) 100 = 1
   \<and> count_list (map d_date_id (date_df (tables ex_rows))) (Some (Timestamp 2023 1 5 0)) = 1"
  using referential_closure [OF ex_transform ex_fact_row] by simp

text \<open>
  C2, key uniqueness. Whenever the transform returns its tables, no key value occurs twice
  in a dimension table: \<^verbatim>\<open>product_id\<close> in the product table, \<^verbatim>\<open>brand_id\<close> in the brand
  table, \<^verbatim>\<open>reviewer_id\<close> in the reviewer table, \<^verbatim>\<open>date_id\<close> in the date table.
\<close>

theorem key_uniqueness:
  assumes "transform_data parse df1 df2 = Inr out"
  shows "distinct (map p_product_id (product_df out))
       \<and> distinct (map b_brand_id (brand_df out))
       \<and> distinct (map r_reviewer_id (reviewer_df out))
       \<and> distinct (map d_date_id (date_df out))"
proof -
  obtain df where "out = tables df"
    using transform_data_Inr [OF assms] by blast
  then show ?thesis
    by (simp add: tables_def distinct_drop_duplicates)
qed

theorem key_uniqueness_witness:
  "distinct (map p_product_id (product_df (tables ex_rows)))
   \<and> distinct (map b_brand_id (brand_df (tables ex_rows)))
   \<and> distinct (map r_reviewer_id (reviewer_df (tables ex_rows)))
   \<and> distinct (map d_date_id (date_df (tables ex_rows)))"
  using key_uniqueness [OF ex_transform] .

text \<open>
  C3, rows without review text. As amended: the fact rows are, in order, the merged rows
  whose review text is not null (and whose reviewer id is accepted), so a merged row with a
  null review text has no fact row and every fact row has a review text that is not null.
  The claim as stated also excludes the empty string; \<^verbatim>\<open>dropna\<close> drops nulls only, and
  the last theorem below has a review whose text is the empty string in the fact table.
\<close>

theorem null_text_excluded:
  assumes "transform_data parse df1 df2 = Inr out"
  shows "map (\<lambda>f. (f_product_id f, f_brand_id f, f_review_text f, f_review_rating f))
             (reviews_df out) =
         map (\<lambda>r. (m_product_id r, m_brand_id r, m_review_text r, m_review_rating r))
             (filter (\<lambda>r. m_review_text r \<noteq> None \<and> checkNumeric (m_reviewer_id r))
                (merge df1 df2))
       \<and> (\<forall>f\<in>set (reviews_df out). f_review_text f \<noteq> None)"
proof -
  obtain df where c: "clean parse df1 df2 = Inr df" and out: "out = tables df"
    using transform_data_Inr [OF assms] by blast
  let ?kept = "filter (\<lambda>r. checkNumeric (m_reviewer_id r)) (dropna_review_text (merge df1 df2))"
  from clean_Inr(1) [OF c] obtain g where df: "df = map g ?kept"
    and g: "\<And>r. c_product_id (g r) = m_product_id r \<and> c_brand_id (g r) = m_brand_id r
              \<and> c_review_text (g r) = m_review_text r \<and> c_review_rating (g r) = m_review_rating r"
    by (metis (no_types, lifting) typed_row_fields(1,4,5,6) fill_row_fields(1,2,3) fill_row_keeps(3))
  have kept: "?kept = filter (\<lambda>r. m_review_text r \<noteq> None \<and> checkNumeric (m_reviewer_id r))
                        (merge df1 df2)"
    by (simp add: dropna_review_text_def conj_commute)
  have cols: "map (\<lambda>f. (f_product_id f, f_brand_id f, f_review_text f, f_review_rating f))
             (reviews_df out) =
        map (\<lambda>c. (c_product_id c, c_brand_id c, c_review_text c, c_review_rating c)) df"
    using fact_columns [of df, THEN arg_cong, of "map (\<lambda>(a, b, c, d, e, f, g). (a, b, f, g))"]
    by (simp add: out comp_def)
  have 1: "map (\<lambda>f. (f_product_id f, f_brand_id f, f_review_text f, f_review_rating f))
             (reviews_df out) =
         map (\<lambda>r. (m_product_id r, m_brand_id r, m_review_text r, m_review_rating r))
             (filter (\<lambda>r. m_review_text r \<noteq> None \<and> checkNumeric (m_reviewer_id r))
                (merge df1 df2))"
    unfolding cols df kept [symmetric] by (simp add: g)
  have "map f_review_text (reviews_df out) = map m_review_text ?kept"
    by (simp add: out fact_column df g comp_def)
  then have "set (map f_review_text (reviews_df out)) \<subseteq> m_review_text ` set ?kept"
    by simp
  then have 2: "\<forall>f\<in>set (reviews_df out). f_review_text f \<noteq> None"
    by (auto simp: dropna_review_text_def)
  from 1 2 show ?thesis by blast
qed

theorem null_text_excluded_witness:
  "map (\<lambda>f. (f_product_id f, f_brand_id f, f_review_text f, f_review_rating f))
       (reviews_df (tables ex_rows)) =
     [(''P1'', 7, Some ''Great'', Some 5), (''P1'', 7, Some ''Good'', Some 3),
      (''P2'', 8, Some ''Fine'', None)]"
proof -
  have "map (\<lambda>r. (m_product_id r, m_brand_id r, m_review_text r, m_review_rating r))
             (filter (\<lambda>r. m_review_text r \<noteq> None \<and> checkNumeric (m_reviewer_id r))
                (merge ex_df1 ex_df2)) =
     [(''P1'', 7, Some ''Great'', Some 5), (''P1'', 7, Some ''Good'', Some 3),
      (''P2'', 8, Some ''Fine'', None)]"
    by code_simp
  then show ?thesis
    using null_text_excluded [OF ex_transform] by simp
qed

theorem empty_text_kept:
  "\<not> isl (transform_data iso_date [cx_product] [cx_review\<lparr>df2_review_text := Some ''''\<rparr>])
   \<and> map f_review_text
        (reviews_df (projr (transform_data iso_date [cx_product]
                              [cx_review\<lparr>df2_review_text := Some ''''\<rparr>]))) = [Some '''']"
  by code_simp

text \<open>
  C4, the numeric reviewer id. The claim has a reviewer id accepted exactly when it is a
  non-empty string of ASCII digits, and every other id dropped without an error. The code
  tests with \<^verbatim>\<open>str.isdigit\<close>, which also holds of the superscript digits, and converts
  with \<^verbatim>\<open>int\<close>, which does not read them: for the id made of the one character U+00B2
  the check accepts the row, the conversion raises \<^verbatim>\<open>ValueError\<close> and the transform
  returns no table at all.
\<close>

theorem superscript_reviewer_id_raises:
  "checkNumeric [CHR 0xB2] = True
   \<and> list_all is_ascii_digit [CHR 0xB2] = False
   \<and> py_int [CHR 0xB2] = Inl ValueError
   \<and> transform_data iso_date [cx_product] [cx_review\<lparr>df2_author_id := [CHR 0xB2]\<rparr>] =
       Inl ValueError"
  by code_simp

text \<open>
  C5, imputation by the mode. When the cleaning succeeds, each of the four categorical
  columns has a mode over the rows left after the null review texts are dropped (rows with
  a reviewer id that is not numeric still count, no date is parsed yet); this mode is a most
  frequent non-null value of the column there; and in the cleaned frame each cell of the
  column is the mode where the merged cell was null and the merged cell otherwise.
\<close>

theorem mode_imputation:
  assumes "clean parse df1 df2 = Inr df"
  shows "\<exists>tone eye stype hair.
      mode0 (map m_reviewer_skin_tone (dropna_review_text (merge df1 df2))) = Inr tone
    \<and> mode0 (map m_reviewer_eye_color (dropna_review_text (merge df1 df2))) = Inr eye
    \<and> mode0 (map m_reviewer_skin_type (dropna_review_text (merge df1 df2))) = Inr stype
    \<and> mode0 (map m_reviewer_hair_color (dropna_review_text (merge df1 df2))) = Inr hair
    \<and> most_frequent (map m_reviewer_skin_tone (dropna_review_text (merge df1 df2))) tone
    \<and> most_frequent (map m_reviewer_eye_color (dropna_review_text (merge df1 df2))) eye
    \<and> most_frequent (map m_reviewer_skin_type (dropna_review_text (merge df1 df2))) stype
    \<and> most_frequent (map m_reviewer_hair_color (dropna_review_text (merge df1 df2))) hair
    \<and> map (\<lambda>c. (c_reviewer_skin_tone c, c_reviewer_eye_color c,
                 c_reviewer_skin_type c, c_reviewer_hair_color c)) df =
      map (\<lambda>r. (if m_reviewer_skin_tone r = None then Some tone else m_reviewer_skin_tone r,
                 if m_reviewer_eye_color r = None then Some eye else m_reviewer_eye_color r,
                 if m_reviewer_skin_type r = None then Some stype else m_reviewer_skin_type r,
                 if m_reviewer_hair_color r = None then Some hair else m_reviewer_hair_color r))
          (filter (\<lambda>r. checkNumeric (m_reviewer_id r)) (dropna_review_text (merge df1 df2)))"
proof -
  let ?base = "dropna_review_text (merge df1 df2)"
  from clean_Inr(1) [OF assms] obtain tone eye stype hair where
    modes: "mode0 (map m_reviewer_skin_tone ?base) = Inr tone"
      "mode0 (map m_reviewer_eye_color ?base) = Inr eye"
      "mode0 (map m_reviewer_skin_type ?base) = Inr stype"
      "mode0 (map m_reviewer_hair_color ?base) = Inr hair"
    and df: "df = map (\<lambda>r. typed_row (fill_row tone eye stype hair r)
                           (projr (to_datetime1 parse (m_full_date r)))
                           (projr (py_int (m_reviewer_id r))))
                    (filter (\<lambda>r. checkNumeric (m_reviewer_id r)) ?base)"
    by blast
  have "map (\<lambda>c. (c_reviewer_skin_tone c, c_reviewer_eye_color c,
                 c_reviewer_skin_type c, c_reviewer_hair_color c)) df =
      map (\<lambda>r. (if m_reviewer_skin_tone r = None then Some tone else m_reviewer_skin_tone r,
                 if m_reviewer_eye_color r = None then Some eye else m_reviewer_eye_color r,
                 if m_reviewer_skin_type r = None then Some stype else m_reviewer_skin_type r,
                 if m_reviewer_hair_color r = None then Some hair else m_reviewer_hair_color r))
          (filter (\<lambda>r. checkNumeric (m_reviewer_id r)) ?base)"
    unfolding df by (simp add: comp_def fillna_if)
  with modes mode0_Inr [OF modes(1)] mode0_Inr [OF modes(2)]
    mode0_Inr [OF modes(3)] mode0_Inr [OF modes(4)]
  show ?thesis by blast
qed

theorem mode_imputation_witness:
  "most_frequent (map m_reviewer_skin_tone (dropna_review_text (merge ex_df1 ex_df2))) ''light''
   \<and> most_frequent (map m_reviewer_eye_color (dropna_review_text (merge ex_df1 ex_df2))) ''brown''
   \<and> most_frequent (map m_reviewer_skin_type (dropna_review_text (merge ex_df1 ex_df2))) ''oily''
   \<and> most_frequent (map m_reviewer_hair_color (dropna_review_text (merge ex_df1 ex_df2))) ''black''
   \<and> map (\<lambda>c. (c_reviewer_skin_tone c, c_reviewer_eye_color c,
                c_reviewer_skin_type c, c_reviewer_hair_color c)) ex_rows =
     [(Some ''fair'', Some ''brown'', Some ''dry'', Some ''black''),
      (Some ''light'', Some ''brown'', Some ''oily'', Some ''red''),
      (Some ''light'', Some ''blue'', Some ''oily'', Some ''black'')]"
proof -
  have "mode0 (map m_reviewer_skin_tone (dropna_review_text (merge ex_df1 ex_df2))) = Inr ''light''"
    "mode0 (map m_reviewer_eye_color (dropna_review_text (merge ex_df1 ex_df2))) = Inr ''brown''"
    "mode0 (map m_reviewer_skin_type (dropna_review_text (merge ex_df1 ex_df2))) = Inr ''oily''"
    "mode0 (map m_reviewer_hair_color (dropna_review_text (merge ex_df1 ex_df2))) = Inr ''black''"
    by code_simp+
  moreover
  have "map (\<lambda>c. (c_reviewer_skin_tone c, c_reviewer_eye_color c,
                c_reviewer_skin_type c, c_reviewer_hair_color c)) ex_rows =
     [(Some ''fair'', Some ''brown'', Some ''dry'', Some ''black''),
      (Some ''light'', Some ''brown'', Some ''oily'', Some ''red''),
      (Some ''light'', Some ''blue'', Some ''oily'', Some ''black'')]"
    by code_simp
  ultimately show ?thesis
    using mode_imputation [OF ex_clean] by auto
qed

text \<open>
  C6, undefined mode. If, after the rows without review text are dropped, one of the four
  categorical columns has no non-null value (in particular when no row is left), the
  transform raises \<^verbatim>\<open>KeyError\<close> and returns no table.
\<close>

theorem undefined_mode_raises:
  assumes "(\<forall>r\<in>set (dropna_review_text (merge df1 df2)). m_reviewer_skin_tone r = None)
         \<or> (\<forall>r\<in>set (dropna_review_text (merge df1 df2)). m_reviewer_eye_color r = None)
         \<or> (\<forall>r\<in>set (dropna_review_text (merge df1 df2)). m_reviewer_skin_type r = None)
         \<or> (\<forall>r\<in>set (dropna_review_text (merge df1 df2)). m_reviewer_hair_color r = None)"
  shows "transform_data parse df1 df2 = Inl KeyError"
  using fill_categoricals_undefined_mode [OF assms]
  by (simp add: transform_data_def clean_def)

theorem undefined_mode_raises_witness:
  "transform_data iso_date ex_df1 (map (\<lambda>r. r\<lparr>df2_eye_color := None\<rparr>) ex_df2) = Inl KeyError"
proof -
  have "\<forall>r\<in>set (dropna_review_text (merge ex_df1 (map (\<lambda>r. r\<lparr>df2_eye_color := None\<rparr>) ex_df2))).
          m_reviewer_eye_color r = None"
    by code_simp
  then show ?thesis
    by (intro undefined_mode_raises) blast
qed

text \<open>
  C7, timestamps that do not parse. As amended: if a row left after the null review texts
  are dropped has a submission time that is not empty, is not one of the NaT tokens and
  is rejected by the parser, the transform raises and returns no table; and when it
  returns, every fact row carries the parsed date of its submission time, or NaT where the
  submission time is empty or a NaT token, and every row of the date table has the year,
  month and day of its \<^verbatim>\<open>date_id\<close>, all three null where the \<^verbatim>\<open>date_id\<close> is NaT. The
  claim as stated has no row kept with an unparsed date; the last theorem below has a
  review with an empty submission time kept with the date NaT.
\<close>

theorem unparseable_timestamp_aborts:
  "((\<exists>r\<in>set (dropna_review_text (merge df1 df2)).
        m_full_date r \<noteq> [] \<and> m_full_date r \<notin> set nat_strings \<and> parse (m_full_date r) = None)
     \<longrightarrow> transform_data parse df1 df2 = Inl KeyError
       \<or> transform_data parse df1 df2 = Inl ParserError)
   \<and> (\<forall>out. transform_data parse df1 df2 = Inr out \<longrightarrow>
        map f_date_id (reviews_df out) =
        map (\<lambda>r. if m_full_date r = [] \<or> m_full_date r \<in> set nat_strings then None
                  else parse (m_full_date r))
            (filter (\<lambda>r. checkNumeric (m_reviewer_id r))
               (dropna_review_text (merge df1 df2)))
        \<and> (\<forall>d\<in>set (date_df out).
              d_year d = map_option ts_year (d_date_id d)
            \<and> d_month d = map_option ts_month (d_date_id d)
            \<and> d_day d = map_option ts_day (d_date_id d)))"
proof (intro conjI impI allI)
  let ?base = "dropna_review_text (merge df1 df2)"
  assume "\<exists>r\<in>set ?base. m_full_date r \<noteq> [] \<and> m_full_date r \<notin> set nat_strings
            \<and> parse (m_full_date r) = None"
  then obtain r where r: "r \<in> set ?base"
    and bad: "to_datetime1 parse (m_full_date r) = Inl ParserError"
    using to_datetime1_unparsed by blast
  show "transform_data parse df1 df2 = Inl KeyError
      \<or> transform_data parse df1 df2 = Inl ParserError"
  proof (cases "fill_categoricals (fill_review_title ?base)")
    case (Inl e)
    then have "transform_data parse df1 df2 = Inl KeyError"
      using fill_categoricals_error [OF Inl] by (simp add: transform_data_def clean_def)
    then show ?thesis by blast
  next
    case (Inr df')
    from fill_categoricals_Inr [OF this] obtain tone eye stype hair
      where df': "df' = map (fill_row tone eye stype hair) ?base"
      by blast
    have "fill_row tone eye stype hair r \<in> set df'"
      using r by (simp add: df')
    moreover have "to_datetime1 parse (m_full_date (fill_row tone eye stype hair r)) =
        Inl ParserError"
      using bad by simp
    ultimately have "type_columns parse df' = Inl ParserError"
      by (rule to_datetime_fails)
    then have "transform_data parse df1 df2 = Inl ParserError"
      by (simp add: transform_data_def clean_def Inr)
    then show ?thesis by blast
  qed
next
  fix out
  let ?base = "dropna_review_text (merge df1 df2)"
  let ?kept = "filter (\<lambda>r. checkNumeric (m_reviewer_id r)) ?base"
  assume "transform_data parse df1 df2 = Inr out"
  then obtain df where c: "clean parse df1 df2 = Inr df" and out: "out = tables df"
    using transform_data_Inr by blast
  from clean_Inr(1) [OF c]
  have dates: "map c_full_date df =
      map (\<lambda>r. projr (to_datetime1 parse (m_full_date r))) ?kept"
    by (auto simp: comp_def)
  have "projr (to_datetime1 parse (m_full_date r)) =
      (if m_full_date r = [] \<or> m_full_date r \<in> set nat_strings then None
       else parse (m_full_date r))" if "r \<in> set ?kept" for r
  proof -
    from that have "r \<in> set ?base" by simp
    with clean_Inr(2) [OF c]
    have "to_datetime1 parse (m_full_date r) = Inr (projr (to_datetime1 parse (m_full_date r)))"
      by blast
    then show ?thesis by (rule to_datetime1_value)
  qed
  then have "map (\<lambda>r. projr (to_datetime1 parse (m_full_date r))) ?kept =
      map (\<lambda>r. if m_full_date r = [] \<or> m_full_date r \<in> set nat_strings then None
                else parse (m_full_date r)) ?kept"
    by (intro map_cong) simp_all
  with dates show "map f_date_id (reviews_df out) =
        map (\<lambda>r. if m_full_date r = [] \<or> m_full_date r \<in> set nat_strings then None
                  else parse (m_full_date r)) ?kept"
    by (simp add: out fact_column)
  show "\<forall>d\<in>set (date_df out).
              d_year d = map_option ts_year (d_date_id d)
            \<and> d_month d = map_option ts_month (d_date_id d)
            \<and> d_day d = map_option ts_day (d_date_id d)"
  proof
    fix d
    assume "d \<in> set (date_df out)"
    then have "d \<in> set (drop_duplicates d_date_id (map date_of df))"
      by (simp add: out tables_def)
    then have "d \<in> set (map date_of df)"
      by (rule subsetD [OF set_drop_duplicates_subset])
    then obtain c' where c': "c' \<in> set df" and d: "d = date_of c'"
      by auto
    from date_parts_of_clean [OF c c'] show
      "d_year d = map_option ts_year (d_date_id d)
       \<and> d_month d = map_option ts_month (d_date_id d)
       \<and> d_day d = map_option ts_day (d_date_id d)"
      by (simp add: d date_of_def)
  qed
qed

theorem unparseable_timestamp_aborts_witness:
  "transform_data iso_date ex_df1
      (map (\<lambda>r. r\<lparr>df2_submission_time := ''not a date''\<rparr>) ex_df2) = Inl ParserError
   \<and> map f_date_id (reviews_df (tables ex_rows)) =
       [Some (Timestamp 2023 1 5 0), Some (Timestamp 2023 2 1 0), Some (Timestamp 2023 1 5 0)]
   \<and> map (\<lambda>d. (d_year d, d_month d, d_day d)) (date_df (tables ex_rows)) =
       map (\<lambda>d. (map_option ts_year (d_date_id d), map_option ts_month (d_date_id d),
                  map_option ts_day (d_date_id d))) (date_df (tables ex_rows))
   \<and> map d_date_id (date_df (tables ex_rows)) =
       [Some (Timestamp 2023 1 5 0), Some (Timestamp 2023 2 1 0)]
   \<and> map (\<lambda>d. (d_date_id d, d_year d, d_month d, d_day d))
        (date_df (projr (transform_data iso_date [cx_product]
                           [cx_review\<lparr>df2_submission_time := ''''\<rparr>]))) =
       [(None, None, None, None)]"
proof -
  let ?bad = "map (\<lambda>r. r\<lparr>df2_submission_time := ''not a date''\<rparr>) ex_df2"
  have bad: "\<exists>r\<in>set (dropna_review_text (merge ex_df1 ?bad)).
        m_full_date r \<noteq> [] \<and> m_full_date r \<notin> set nat_strings \<and> iso_date (m_full_date r) = None"
    by code_simp
  have no_key: "transform_data iso_date ex_df1 ?bad \<noteq> Inl KeyError"
    by code_simp
  from unparseable_timestamp_aborts [of ex_df1 ?bad iso_date, THEN conjunct1, rule_format, OF bad]
    no_key
  have 1: "transform_data iso_date ex_df1 ?bad = Inl ParserError"
    by simp
  note ok = unparseable_timestamp_aborts [of ex_df1 ex_df2 iso_date, THEN conjunct2,
      rule_format, OF ex_transform]
  have "map (\<lambda>r. if m_full_date r = [] \<or> m_full_date r \<in> set nat_strings then None
                  else iso_date (m_full_date r))
            (filter (\<lambda>r. checkNumeric (m_reviewer_id r))
               (dropna_review_text (merge ex_df1 ex_df2))) =
       [Some (Timestamp 2023 1 5 0), Some (Timestamp 2023 2 1 0), Some (Timestamp 2023 1 5 0)]"
    by code_simp
  with ok [THEN conjunct1]
  have 2: "map f_date_id (reviews_df (tables ex_rows)) =
       [Some (Timestamp 2023 1 5 0), Some (Timestamp 2023 2 1 0), Some (Timestamp 2023 1 5 0)]"
    by (rule trans)
  from ok [THEN conjunct2]
  have 3: "map (\<lambda>d. (d_year d, d_month d, d_day d)) (date_df (tables ex_rows)) =
       map (\<lambda>d. (map_option ts_year (d_date_id d), map_option ts_month (d_date_id d),
                  map_option ts_day (d_date_id d))) (date_df (tables ex_rows))"
    by (intro map_cong) simp_all
  have 4: "map d_date_id (date_df (tables ex_rows)) =
       [Some (Timestamp 2023 1 5 0), Some (Timestamp 2023 2 1 0)]"
    by code_simp
  let ?nat = "projr (transform_data iso_date [cx_product]
                      [cx_review\<lparr>df2_submission_time := ''''\<rparr>])"
  have ret: "transform_data iso_date [cx_product] [cx_review\<lparr>df2_submission_time := ''''\<rparr>] =
      Inr ?nat"
    by code_simp
  have ids: "map d_date_id (date_df ?nat) = [None]"
    by code_simp
  from unparseable_timestamp_aborts [of "[cx_product]"
      "[cx_review\<lparr>df2_submission_time := ''''\<rparr>]" iso_date, THEN conjunct2, rule_format,
      OF ret, THEN conjunct2]
  have "map (\<lambda>d. (d_date_id d, d_year d, d_month d, d_day d)) (date_df ?nat) =
      map (\<lambda>i. (i, map_option ts_year i, map_option ts_month i, map_option ts_day i))
          (map d_date_id (date_df ?nat))"
    by (simp add: comp_def)
  then have 5: "map (\<lambda>d. (d_date_id d, d_year d, d_month d, d_day d)) (date_df ?nat) =
      [(None, None, None, None)]"
    unfolding ids by simp
  from 1 2 3 4 5 show ?thesis by (intro conjI)
qed

theorem empty_timestamp_kept:
  "iso_date '''' = None
   \<and> \<not> isl (transform_data iso_date [cx_product] [cx_review\<lparr>df2_submission_time := ''''\<rparr>])
   \<and> map (\<lambda>f. (f_review_id f, f_date_id f))
        (reviews_df (projr (transform_data iso_date [cx_product]
                              [cx_review\<lparr>df2_submission_time := ''''\<rparr>]))) = [(1, None)]
   \<and> date_df (projr (transform_data iso_date [cx_product]
                        [cx_review\<lparr>df2_submission_time := ''''\<rparr>])) =
       [\<lparr> d_date_id = None, d_year = None, d_month = None, d_day = None \<rparr>]"
  by code_simp

text \<open>
  C8, the fact table. The transform returns one fact row for each row of the cleaned
  frame, in its order, and numbers them 1, 2, .., N: the row at position \<open>k\<close> (from 0)
  has \<^verbatim>\<open>review_id\<close> \<open>k + 1\<close>.
\<close>

theorem review_id_sequential:
  assumes "clean parse df1 df2 = Inr df"
  shows "\<exists>out. transform_data parse df1 df2 = Inr out
           \<and> length (reviews_df out) = length df
           \<and> map f_review_id (reviews_df out) = [1..int (length df)]
           \<and> (\<forall>k<length df. reviews_df out ! k = review_of (k, df ! k))"
proof -
  have t: "transform_data parse df1 df2 = Inr (tables df)"
    by (simp add: transform_data_def assms)
  have "map f_review_id (map review_of (enumerate 0 df)) =
          map (\<lambda>k. int k + 1) (map fst (enumerate 0 df))"
    by (simp add: review_of_def comp_def del: map_fst_enumerate)
  also have "map fst (enumerate 0 df) = [0..<length df]"
    by simp
  finally have ids: "map f_review_id (map review_of (enumerate 0 df)) =
      map (\<lambda>k. int k + 1) [0..<length df]" .
  have "\<forall>k<length df. map review_of (enumerate 0 df) ! k = review_of (k, df ! k)"
    by (simp add: nth_enumerate_eq)
  with t ids show ?thesis
    by (simp add: tables_def upto_as_map)
qed

theorem review_id_sequential_witness:
  "length (reviews_df (tables ex_rows)) = 3
   \<and> map f_review_id (reviews_df (tables ex_rows)) = [1, 2, 3]"
proof -
  have "[1..int (length ex_rows)] = [1, 2, 3]" "length ex_rows = 3"
    by code_simp+
  then show ?thesis
    using review_id_sequential [OF ex_clean] by (simp add: ex_transform)
qed

text \<open>
  C9, first occurrence wins. In each of the four dimension tables, every row is the
  projection of the first row of the cleaned frame that has the row's key, whatever the
  later rows with the same key carry; no key occurs in two rows of the table; and the row
  found under any key is the projection of the first cleaned row with this key, so that
  every key of the cleaned frame has its row and a key no cleaned row has is in no row.
\<close>

theorem first_occurrence_wins:
  assumes "clean parse df1 df2 = Inr df"
  shows "\<exists>out. transform_data parse df1 df2 = Inr out
     \<and> find (\<lambda>d. p_product_id d = pk) (product_df out) =
         map_option product_of (find (\<lambda>r. c_product_id r = pk) df)
     \<and> find (\<lambda>d. b_brand_id d = bk) (brand_df out) =
         map_option brand_of (find (\<lambda>r. c_brand_id r = bk) df)
     \<and> find (\<lambda>d. r_reviewer_id d = rk) (reviewer_df out) =
         map_option reviewer_of (find (\<lambda>r. c_reviewer_id r = rk) df)
     \<and> find (\<lambda>d. d_date_id d = dk) (date_df out) =
         map_option date_of (find (\<lambda>r. c_full_date r = dk) df)
     \<and> (\<forall>d\<in>set (product_df out).
           map_option product_of (find (\<lambda>r. c_product_id r = p_product_id d) df) = Some d)
     \<and> (\<forall>d\<in>set (brand_df out).
           map_option brand_of (find (\<lambda>r. c_brand_id r = b_brand_id d) df) = Some d)
     \<and> (\<forall>d\<in>set (reviewer_df out).
           map_option reviewer_of (find (\<lambda>r. c_reviewer_id r = r_reviewer_id d) df) = Some d)
     \<and> (\<forall>d\<in>set (date_df out).
           map_option date_of (find (\<lambda>r. c_full_date r = d_date_id d) df) = Some d)
     \<and> distinct (map p_product_id (product_df out))
     \<and> distinct (map b_brand_id (brand_df out))
     \<and> distinct (map r_reviewer_id (reviewer_df out))
     \<and> distinct (map d_date_id (date_df out))"
proof -
  have t: "transform_data parse df1 df2 = Inr (tables df)"
    by (simp add: transform_data_def assms)
  have "find (\<lambda>d. p_product_id d = pk) (map product_of df) =
          map_option product_of (find (\<lambda>r. c_product_id r = pk) df)"
    by (rule find_map_key) (simp add: product_of_def)
  moreover
  have "find (\<lambda>d. b_brand_id d = bk) (map brand_of df) =
          map_option brand_of (find (\<lambda>r. c_brand_id r = bk) df)"
    by (rule find_map_key) (simp add: brand_of_def)
  moreover
  have "find (\<lambda>d. r_reviewer_id d = rk) (map reviewer_of df) =
          map_option reviewer_of (find (\<lambda>r. c_reviewer_id r = rk) df)"
    by (rule find_map_key) (simp add: reviewer_of_def)
  moreover
  have "find (\<lambda>d. d_date_id d = dk) (map date_of df) =
          map_option date_of (find (\<lambda>r. c_full_date r = dk) df)"
    by (rule find_map_key) (simp add: date_of_def)
  moreover
  have "map_option product_of (find (\<lambda>r. c_product_id r = p_product_id d) df) = Some d"
    if "d \<in> set (drop_duplicates p_product_id (map product_of df))" for d
    using _ that by (rule dimension_row_is_first) (simp add: product_of_def)
  moreover
  have "map_option brand_of (find (\<lambda>r. c_brand_id r = b_brand_id d) df) = Some d"
    if "d \<in> set (drop_duplicates b_brand_id (map brand_of df))" for d
    using _ that by (rule dimension_row_is_first) (simp add: brand_of_def)
  moreover
  have "map_option reviewer_of (find (\<lambda>r. c_reviewer_id r = r_reviewer_id d) df) = Some d"
    if "d \<in> set (drop_duplicates r_reviewer_id (map reviewer_of df))" for d
    using _ that by (rule dimension_row_is_first) (simp add: reviewer_of_def)
  moreover
  have "map_option date_of (find (\<lambda>r. c_full_date r = d_date_id d) df) = Some d"
    if "d \<in> set (drop_duplicates d_date_id (map date_of df))" for d
    using _ that by (rule dimension_row_is_first) (simp add: date_of_def)
  ultimately show ?thesis
    by (simp add: t tables_def find_drop_duplicates distinct_drop_duplicates)
qed

theorem first_occurrence_wins_witness:
  "find (\<lambda>d. p_product_id d = ''P1'') (product_df (tables ex_rows)) =
     Some \<lparr> p_product_id = ''P1'', p_product_name = ''Serum'',
            p_avg_product_rating = Some 4.5, p_product_price = 10,
            p_product_reviews_count = Some 3, p_favorites_count = Some 120,
            p_variations_count = Some 0, p_product_category = Some ''Skincare'' \<rparr>
   \<and> find (\<lambda>d. b_brand_id d = 7) (brand_df (tables ex_rows)) =
     Some \<lparr> b_brand_id = 7, b_brand_name = ''Acme'' \<rparr>
   \<and> find (\<lambda>d. r_reviewer_id d = 100) (reviewer_df (tables ex_rows)) =
     Some \<lparr> r_reviewer_id = 100, r_reviewer_skin_tone = Some ''fair'',
            r_reviewer_skin_type = Some ''dry'', r_reviewer_eye_color = Some ''brown'',
            r_reviewer_hair_color = Some ''black'' \<rparr>
   \<and> find (\<lambda>d. d_date_id d = Some (Timestamp 2023 1 5 0)) (date_df (tables ex_rows)) =
     Some \<lparr> d_date_id = Some (Timestamp 2023 1 5 0), d_year = Some 2023,
            d_month = Some 1, d_day = Some 5 \<rparr>
   \<and> map (\<lambda>d. (p_product_id d, p_product_name d, p_product_price d))
         (product_df (tables ex_rows)) = [(''P1'', ''Serum'', 10), (''P2'', ''Cream'', 25)]
   \<and> map c_product_name (filter (\<lambda>r. c_product_id r = ''P1'') ex_rows) =
         [''Serum'', ''Serum XL'']"
proof -
  have "map_option product_of (find (\<lambda>r. c_product_id r = ''P1'') ex_rows) =
     Some \<lparr> p_product_id = ''P1'', p_product_name = ''Serum'',
            p_avg_product_rating = Some 4.5, p_product_price = 10,
            p_product_reviews_count = Some 3, p_favorites_count = Some 120,
            p_variations_count = Some 0, p_product_category = Some ''Skincare'' \<rparr>"
    by code_simp
  moreover
  have "map_option brand_of (find (\<lambda>r. c_brand_id r = 7) ex_rows) =
     Some \<lparr> b_brand_id = 7, b_brand_name = ''Acme'' \<rparr>"
    by code_simp
  moreover
  have "map_option reviewer_of (find (\<lambda>r. c_reviewer_id r = 100) ex_rows) =
     Some \<lparr> r_reviewer_id = 100, r_reviewer_skin_tone = Some ''fair'',
            r_reviewer_skin_type = Some ''dry'', r_reviewer_eye_color = Some ''brown'',
            r_reviewer_hair_color = Some ''black'' \<rparr>"
    by code_simp
  moreover
  have "map_option date_of (find (\<lambda>r. c_full_date r = Some (Timestamp 2023 1 5 0)) ex_rows) =
     Some \<lparr> d_date_id = Some (Timestamp 2023 1 5 0), d_year = Some 2023,
            d_month = Some 1, d_day = Some 5 \<rparr>"
    by code_simp
  moreover
  have "map (\<lambda>d. (p_product_id d, p_product_name d, p_product_price d))
         (product_df (tables ex_rows)) = [(''P1'', ''Serum'', 10), (''P2'', ''Cream'', 25)]"
    by code_simp
  moreover
  have "map c_product_name (filter (\<lambda>r. c_product_id r = ''P1'') ex_rows) =
         [''Serum'', ''Serum XL'']"
    by code_simp
  ultimately show ?thesis
    using first_occurrence_wins [OF ex_clean, of "''P1''" 7 100 "Some (Timestamp 2023 1 5 0)"]
    by (simp add: ex_transform)
qed

text \<open>
  C10, brands are told apart by \<^verbatim>\<open>brand_id\<close> alone. There are inputs for which the brand
  table has two rows with one \<^verbatim>\<open>brand_name\<close> and different \<^verbatim>\<open>brand_id\<close>, so that the
  table breaks the uniqueness of \<^verbatim>\<open>brand_name\<close> that \<^verbatim>\<open>tbl_brand\<close> declares.
\<close>

theorem brand_name_not_unique:
  "\<exists>df1 df2 out a b.
     transform_data iso_date df1 df2 = Inr out
     \<and> a \<in> set (brand_df out) \<and> b \<in> set (brand_df out)
     \<and> b_brand_name a = b_brand_name b \<and> b_brand_id a \<noteq> b_brand_id b
     \<and> \<not> tbl_brand_unique (brand_df out)"
proof -
  let ?a = "\<lparr> b_brand_id = 7, b_brand_name = ''Acme'' \<rparr>"
  let ?b = "\<lparr> b_brand_id = 8, b_brand_name = ''Acme'' \<rparr>"
  have "brand_df (tables ex_rows) = [?a, ?b]"
    by code_simp
  then have "?a \<in> set (brand_df (tables ex_rows))" "?b \<in> set (brand_df (tables ex_rows))"
    by simp_all
  moreover have "b_brand_name ?a = b_brand_name ?b \<and> b_brand_id ?a \<noteq> b_brand_id ?b"
    by simp
  moreover have "\<not> tbl_brand_unique (brand_df (tables ex_rows))"
    by code_simp
  ultimately show ?thesis
    using ex_transform by blast
qed

end
